theory Spec2Isabelle
  imports Complex_Main "HOL-Library.Word" "HOL-Library.Sublist"
begin

section \<open>Literary Muse: the submission handler of \<open>src/App.tsx\<close>\<close>

text \<open>
  The component \<open>App\<close> holds three pieces of React state (\<open>messages\<close>, \<open>input\<close>,
  \<open>isLoading\<close>), reads one configuration value (\<open>apiToken\<close>) and has one operation,
  the asynchronous function \<open>handleSubmit\<close>. This theory embeds that function: the part
  that runs before the \<open>await\<close>, the part that runs when the awaited promise settles,
  and the \<open>catch\<close> and \<open>finally\<close> blocks shared by both.
\<close>

subsection \<open>JavaScript strings and values\<close>

text \<open>
  A JavaScript string is a sequence of 16-bit code units. String literals of the source
  are ASCII and are written through \<open>str\<close>.
\<close>

type_synonym js_string = "16 word list"

definition str :: "string \<Rightarrow> js_string" where
  "str s = map of_char s"

text \<open>
  \<open>String.prototype.trim\<close> removes leading and trailing white space and line
  terminators (ECMAScript: TAB, VT, FF, ZWNBSP, the Unicode space separators, LF, CR,
  LS, PS). All of them are single code units.
\<close>

definition is_white_space :: "16 word \<Rightarrow> bool" where
  "is_white_space c \<longleftrightarrow>
     c = 0x0009 \<or> c = 0x000A \<or> c = 0x000B \<or> c = 0x000C \<or> c = 0x000D \<or>
     c = 0x0020 \<or> c = 0x00A0 \<or> c = 0x1680 \<or> (0x2000 \<le> c \<and> c \<le> 0x200A) \<or>
     c = 0x2028 \<or> c = 0x2029 \<or> c = 0x202F \<or> c = 0x205F \<or> c = 0x3000 \<or>
     c = 0xFEFF"

definition trim :: "js_string \<Rightarrow> js_string" where
  "trim s = rev (dropWhile is_white_space (rev (dropWhile is_white_space s)))"

text \<open>
  The values a response field or a thrown value can be. Only \<open>typeof\<close> is ever applied
  to them; numbers are kept as rationals (\<open>NaN\<close> and the infinities have the same
  \<open>typeof\<close>). An object is the list of its own properties, looked up from the left.
\<close>

datatype js_value =
    JUndefined
  | JNull
  | JBoolean bool
  | JNumber rat
  | JString js_string
  | JObject "(js_string \<times> js_value) list"

fun typeof :: "js_value \<Rightarrow> js_string" where
  "typeof JUndefined = str ''undefined''"
| "typeof JNull = str ''object''"
| "typeof (JBoolean b) = str ''boolean''"
| "typeof (JNumber n) = str ''number''"
| "typeof (JString s) = str ''string''"
| "typeof (JObject ps) = str ''object''"

text \<open>Reading a property of an object: \<open>undefined\<close> when the object has none of that name.\<close>

definition get_property :: "(js_string \<times> js_value) list \<Rightarrow> js_string \<Rightarrow> js_value" where
  "get_property ps k = (case map_of ps k of None \<Rightarrow> JUndefined | Some v \<Rightarrow> v)"

subsection \<open>Data model\<close>

datatype role = User | Assistant

record message =
  role :: role
  content :: js_string

record app_state =
  messages :: "message list"
  input :: js_string
  isLoading :: bool

text \<open>The argument of \<open>hf.chatCompletion\<close>.\<close>

record parameters =
  max_new_tokens :: int
  temperature :: rat
  top_p :: rat

record request =
  model :: js_string
  messages_arg :: "message list"
  parameters_arg :: parameters

definition MODEL_ID :: js_string where
  "MODEL_ID = str ''Domver345/lightnovel_ai_proto''"

text \<open>
  How the promise returned by \<open>hf.chatCompletion\<close> settles: it resolves with a result
  object (the SDK declares an object type; it is given by its properties), or it
  rejects with a thrown value, which is an \<open>Error\<close> instance with its \<open>message\<close> or
  any other value.
\<close>

datatype thrown = ErrorInstance js_string | NotAnError js_value

datatype outcome = Resolved "(js_string \<times> js_value) list" | Rejected thrown

subsection \<open>The handler\<close>

text \<open>\<open>setMessages(prev => [...prev, m])\<close>\<close>

definition append_message :: "message \<Rightarrow> app_state \<Rightarrow> app_state" where
  "append_message m s = s\<lparr>messages := messages s @ [m]\<rparr>"

text \<open>
  The \<open>catch\<close> block (\<open>console.error\<close> writes to the console only) and the \<open>finally\<close>
  block.
\<close>

definition error_text :: "thrown \<Rightarrow> js_string" where
  "error_text e = (case e of ErrorInstance m \<Rightarrow> m | NotAnError v \<Rightarrow> str ''Failed to get response'')"

definition catch_block :: "thrown \<Rightarrow> app_state \<Rightarrow> app_state" where
  "catch_block e s =
     append_message \<lparr>role = Assistant, content = str ''Error: '' @ error_text e\<rparr> s"

definition finally_block :: "app_state \<Rightarrow> app_state" where
  "finally_block s = s\<lparr>isLoading := False\<rparr>"

text \<open>
  The credential test \<open>!apiToken || apiToken === 'your_token_here'\<close>. The token is
  \<open>undefined\<close> (\<open>None\<close>) or a string; the empty string is falsy as well.
\<close>

definition token_missing :: "js_string option \<Rightarrow> bool" where
  "token_missing apiToken \<longleftrightarrow>
     (case apiToken of None \<Rightarrow> True | Some t \<Rightarrow> t = [] \<or> t = str ''your_token_here'')"

definition chat_request :: "js_string \<Rightarrow> request" where
  "chat_request userMessage =
     \<lparr>model = MODEL_ID,
      messages_arg = [\<lparr>role = User, content = userMessage\<rparr>],
      parameters_arg = \<lparr>max_new_tokens = 500, temperature = 7 / 10, top_p = 95 / 100\<rparr>\<rparr>"

text \<open>
  What one call of \<open>handleSubmit\<close> has done when control first leaves it:
  \<^item> \<open>Returned\<close>: the guard in its first line returned;
  \<^item> \<open>Completed\<close>: the body ran to its end without reaching the \<open>await\<close>;
  \<^item> \<open>Suspended\<close>: \<open>hf.chatCompletion\<close> was called with the request and the function
    waits for the promise.
\<close>

datatype submit_step =
    Returned app_state
  | Completed app_state
  | Suspended app_state request

text \<open>
  \<open>input\<close> and \<open>isLoading\<close> are constants of one render of \<open>App\<close>, and
  \<open>handleSubmit\<close> is a closure created in that render: its guard and its prompt read
  the state \<open>r\<close> which that render displayed. The setters do not change those
  constants; they update the state \<open>s\<close> current when the handler runs
  (\<open>setMessages\<close> through a function of the previous value). Once the component has
  rendered again after the last update, \<open>r\<close> and \<open>s\<close> are the same state.
\<close>

definition handleSubmit :: "js_string option \<Rightarrow> app_state \<Rightarrow> app_state \<Rightarrow> submit_step" where
  "handleSubmit apiToken r s =
     (if trim (input r) = [] \<or> isLoading r then Returned s
      else
        let userMessage = trim (input r);
            s1 = s\<lparr>input := []\<rparr>;
            s2 = append_message \<lparr>role = User, content = userMessage\<rparr> s1;
            s3 = s2\<lparr>isLoading := True\<rparr>
        in if token_missing apiToken then
             Completed (finally_block (catch_block
               (ErrorInstance (str ''Please set your Hugging Face API token in the .env file'')) s3))
           else Suspended s3 (chat_request userMessage))"

text \<open>
  The rest of the \<open>try\<close> block, run on the state current when the promise settles
  (the updaters are functions of the previous state). Where \<open>typeof\<close> answers
  \<open>string\<close> the value is a \<open>JString\<close>, so the default of the inner \<open>case\<close> is
  never taken.
\<close>

definition handleSubmit_resume :: "outcome \<Rightarrow> app_state \<Rightarrow> app_state" where
  "handleSubmit_resume oc s =
     (case oc of
        Resolved result \<Rightarrow>
          let generated_text = get_property result (str ''generated_text'');
              assistantMessage =
                (if typeof generated_text = str ''string''
                 then (case generated_text of JString g \<Rightarrow> g | _ \<Rightarrow> [])
                 else str ''No response generated'')
          in finally_block (append_message \<lparr>role = Assistant, content = assistantMessage\<rparr> s)
      | Rejected e \<Rightarrow> finally_block (catch_block e s))"

subsection \<open>Reading a step\<close>

text \<open>
  The state that a call of \<open>handleSubmit\<close> leaves behind, the calls of
  \<open>hf.chatCompletion\<close> it has made, and whether it got past the guard.
\<close>

fun state_of :: "submit_step \<Rightarrow> app_state" where
  "state_of (Returned s) = s"
| "state_of (Completed s) = s"
| "state_of (Suspended s rq) = s"

fun requests_made :: "submit_step \<Rightarrow> request list" where
  "requests_made (Returned s) = []"
| "requests_made (Completed s) = []"
| "requests_made (Suspended s rq) = [rq]"

fun accepted :: "submit_step \<Rightarrow> bool" where
  "accepted (Returned s) = False"
| "accepted (Completed s) = True"
| "accepted (Suspended s rq) = True"

section \<open>Properties\<close>

text \<open>
  Throughout, \<open>r\<close> is the state shown by the render that the handler belongs to and
  \<open>s\<close> the state current when it is called. A submission is accepted when the input
  of \<open>r\<close> is non-empty after trimming and \<open>isLoading\<close> is false in \<open>r\<close>; the case
  of a handler called in its own up-to-date render is \<open>r = s\<close>.
\<close>

subsection \<open>Auxiliary facts\<close>

lemma str_append: "str a @ str b = str (a @ b)"
  by (simp add: str_def)

lemma typeof_string_iff: "typeof v = str ''string'' \<longleftrightarrow> (\<exists>g. v = JString g)"
  by (cases v) (simp_all add: str_def)


lemma handleSubmit_config_fault:
  assumes "trim (input r) \<noteq> []" and "\<not> isLoading r" and "token_missing apiToken"
  shows "handleSubmit apiToken r s =
           Completed (s\<lparr>messages := messages s @
                [\<lparr>role = User, content = trim (input r)\<rparr>,
                 \<lparr>role = Assistant,
                  content = str ''Error: Please set your Hugging Face API token in the .env file''\<rparr>],
              input := [], isLoading := False\<rparr>)"
  using assms
  by (simp add: handleSubmit_def Let_def append_message_def catch_block_def finally_block_def
      error_text_def str_append)

lemma handleSubmit_suspends:
  assumes "trim (input r) \<noteq> []" and "\<not> isLoading r" and "\<not> token_missing apiToken"
  shows "handleSubmit apiToken r s =
           Suspended (s\<lparr>messages := messages s @ [\<lparr>role = User, content = trim (input r)\<rparr>],
                        input := [], isLoading := True\<rparr>)
             (chat_request (trim (input r)))"
  using assms by (simp add: handleSubmit_def Let_def append_message_def)

lemma resume_rejected:
  "handleSubmit_resume (Rejected e) s =
     s\<lparr>messages := messages s @ [\<lparr>role = Assistant, content = str ''Error: '' @ error_text e\<rparr>],
       isLoading := False\<rparr>"
  by (simp add: handleSubmit_resume_def catch_block_def finally_block_def append_message_def)

lemma resume_resolved_string:
  "get_property result (str ''generated_text'') = JString g \<Longrightarrow>
   handleSubmit_resume (Resolved result) s =
     s\<lparr>messages := messages s @ [\<lparr>role = Assistant, content = g\<rparr>], isLoading := False\<rparr>"
  by (simp add: handleSubmit_resume_def finally_block_def append_message_def)

lemma resume_resolved_other:
  "\<forall>g. get_property result (str ''generated_text'') \<noteq> JString g \<Longrightarrow>
   handleSubmit_resume (Resolved result) s =
     s\<lparr>messages := messages s @ [\<lparr>role = Assistant, content = str ''No response generated''\<rparr>],
       isLoading := False\<rparr>"
  by (simp add: handleSubmit_resume_def finally_block_def append_message_def typeof_string_iff)

lemma resume_appends_one:
  "\<exists>c. handleSubmit_resume oc s =
     s\<lparr>messages := messages s @ [\<lparr>role = Assistant, content = c\<rparr>], isLoading := False\<rparr>"
proof (cases oc)
  case (Resolved result)
  show ?thesis
  proof (cases "\<exists>g. get_property result (str ''generated_text'') = JString g")
    case True
    then show ?thesis using Resolved resume_resolved_string by blast
  next
    case False
    then show ?thesis using Resolved resume_resolved_other by blast
  qed
next
  case (Rejected e)
  then show ?thesis using resume_rejected by blast
qed

subsection \<open>One user entry, then one assistant entry\<close>



subsection \<open>The loading flag after settlement\<close>

text \<open>
  Claim C2. After every settlement the flag \<open>isLoading\<close> is false: when the promise
  resolves with any result or rejects with any thrown value, and when the credential
  test fails and the handler completes without a call. The handler of a render that
  shows the settled state with an input that is non-empty after trimming passes the
  guard again.
\<close>

theorem request_state_idle_after_settlement:
  "\<not> isLoading (handleSubmit_resume oc s1)
   \<and> (\<forall>s'. handleSubmit apiToken r s = Completed s' \<longrightarrow> \<not> isLoading s')
   \<and> (trim p \<noteq> [] \<longrightarrow>
        accepted (handleSubmit apiToken ((handleSubmit_resume oc s1)\<lparr>input := p\<rparr>) u))
   \<and> (\<forall>s'. handleSubmit apiToken r s = Completed s' \<longrightarrow> trim p \<noteq> [] \<longrightarrow>
        accepted (handleSubmit apiToken (s'\<lparr>input := p\<rparr>) u))"
proof -
  have idle_resume: "\<not> isLoading (handleSubmit_resume oc s1)"
  proof -
    obtain c where "handleSubmit_resume oc s1 =
        s1\<lparr>messages := messages s1 @ [\<lparr>role = Assistant, content = c\<rparr>], isLoading := False\<rparr>"
      using resume_appends_one by blast
    then show ?thesis by simp
  qed
  have idle_completed: "\<not> isLoading s'" if "handleSubmit apiToken r s = Completed s'" for s'
    using that
    by (auto simp: handleSubmit_def Let_def finally_block_def split: if_splits)
  have again: "accepted (handleSubmit apiToken (t\<lparr>input := p\<rparr>) u)"
    if "\<not> isLoading t" and "trim p \<noteq> []" for t
    using that by (simp add: handleSubmit_def Let_def)
  show ?thesis
    using idle_resume idle_completed again by blast
qed

theorem request_state_idle_after_settlement_witness:
  "\<not> isLoading (handleSubmit_resume (Rejected (ErrorInstance (str ''Service unavailable'')))
        \<lparr>messages = [\<lparr>role = User, content = str ''Hello''\<rparr>], input = [], isLoading = True\<rparr>)
   \<and> handleSubmit None \<lparr>messages = [], input = str ''Hello'', isLoading = False\<rparr>
        \<lparr>messages = [], input = str ''Hello'', isLoading = False\<rparr> =
       Completed \<lparr>messages = [\<lparr>role = User, content = str ''Hello''\<rparr>,
           \<lparr>role = Assistant,
            content = str ''Error: Please set your Hugging Face API token in the .env file''\<rparr>],
         input = [], isLoading = False\<rparr>
   \<and> trim (str ''Again'') \<noteq> []
   \<and> accepted (handleSubmit None
        ((handleSubmit_resume (Rejected (ErrorInstance (str ''Service unavailable'')))
           \<lparr>messages = [\<lparr>role = User, content = str ''Hello''\<rparr>], input = [], isLoading = True\<rparr>)
         \<lparr>input := str ''Again''\<rparr>)
        ((handleSubmit_resume (Rejected (ErrorInstance (str ''Service unavailable'')))
           \<lparr>messages = [\<lparr>role = User, content = str ''Hello''\<rparr>], input = [], isLoading = True\<rparr>)
         \<lparr>input := str ''Again''\<rparr>))
   \<and> accepted (handleSubmit None
        (\<lparr>messages = [\<lparr>role = User, content = str ''Hello''\<rparr>,
           \<lparr>role = Assistant,
            content = str ''Error: Please set your Hugging Face API token in the .env file''\<rparr>],
         input = [], isLoading = False\<rparr>\<lparr>input := str ''Again''\<rparr>)
        (\<lparr>messages = [\<lparr>role = User, content = str ''Hello''\<rparr>,
           \<lparr>role = Assistant,
            content = str ''Error: Please set your Hugging Face API token in the .env file''\<rparr>],
         input = [], isLoading = False\<rparr>\<lparr>input := str ''Again''\<rparr>))"
proof -
  let ?s = "\<lparr>messages = [], input = str ''Hello'', isLoading = False\<rparr>"
  let ?s' = "\<lparr>messages = [\<lparr>role = User, content = str ''Hello''\<rparr>,
           \<lparr>role = Assistant,
            content = str ''Error: Please set your Hugging Face API token in the .env file''\<rparr>],
         input = [], isLoading = False\<rparr>"
  let ?oc = "Rejected (ErrorInstance (str ''Service unavailable''))"
  let ?s1 = "\<lparr>messages = [\<lparr>role = User, content = str ''Hello''\<rparr>], input = [], isLoading = True\<rparr>"
  have tr: "trim (str ''Hello'') = str ''Hello''"
    by (simp add: trim_def str_def is_white_space_def)
  have ne: "str ''Hello'' \<noteq> []" by (simp add: str_def)
  have c: "handleSubmit None ?s ?s = Completed ?s'"
    using tr ne
    by (simp add: handleSubmit_def Let_def token_missing_def append_message_def catch_block_def
        finally_block_def error_text_def str_append)
  have p: "trim (str ''Again'') \<noteq> []"
    by (simp add: trim_def str_def is_white_space_def)
  show ?thesis
    using c p
      request_state_idle_after_settlement
        [where oc = ?oc and ?s1.0 = ?s1 and apiToken = None and r = ?s and s = ?s
           and p = "str ''Again''" and u = "(handleSubmit_resume ?oc ?s1)\<lparr>input := str ''Again''\<rparr>"]
      request_state_idle_after_settlement
        [where oc = ?oc and ?s1.0 = ?s1 and apiToken = None and r = ?s and s = ?s
           and p = "str ''Again''" and u = "?s'\<lparr>input := str ''Again''\<rparr>"]
    by blast
qed

subsection \<open>The guard\<close>




subsection \<open>Missing or placeholder credential\<close>

text \<open>
  Claim C4. For an accepted submission with the credential absent (\<open>undefined\<close>, or
  the empty string) or equal to the placeholder \<open>your_token_here\<close>, the handler
  completes without calling \<open>hf.chatCompletion\<close>; the transcript receives the user
  entry and then the assistant entry with the fixed instruction, and \<open>isLoading\<close>
  ends false.
\<close>

theorem missing_token_reported_without_call:
  assumes "trim (input r) \<noteq> []" and "\<not> isLoading r"
    and "apiToken = None \<or> apiToken = Some [] \<or> apiToken = Some (str ''your_token_here'')"
  shows "handleSubmit apiToken r s =
           Completed (s\<lparr>messages := messages s @
                [\<lparr>role = User, content = trim (input r)\<rparr>,
                 \<lparr>role = Assistant,
                  content = str ''Error: Please set your Hugging Face API token in the .env file''\<rparr>],
              input := [], isLoading := False\<rparr>)
         \<and> requests_made (handleSubmit apiToken r s) = []"
proof -
  from assms(3) have "token_missing apiToken"
    by (auto simp: token_missing_def)
  with assms(1,2) show ?thesis
    by (simp add: handleSubmit_config_fault)
qed

theorem missing_token_reported_without_call_witness:
  "handleSubmit None \<lparr>messages = [], input = str ''Hello'', isLoading = False\<rparr>
      \<lparr>messages = [], input = str ''Hello'', isLoading = False\<rparr> =
     Completed \<lparr>messages = [\<lparr>role = User, content = str ''Hello''\<rparr>,
         \<lparr>role = Assistant,
          content = str ''Error: Please set your Hugging Face API token in the .env file''\<rparr>],
       input = [], isLoading = False\<rparr>
   \<and> requests_made (handleSubmit (Some (str ''your_token_here''))
        \<lparr>messages = [], input = str ''Hello'', isLoading = False\<rparr>
        \<lparr>messages = [], input = str ''Hello'', isLoading = False\<rparr>) = []"
proof -
  let ?s = "\<lparr>messages = [], input = str ''Hello'', isLoading = False\<rparr>"
  have tr: "trim (input ?s) = str ''Hello''"
    by (simp add: trim_def str_def is_white_space_def)
  have h1: "trim (input ?s) \<noteq> []"
    unfolding tr by (simp add: str_def)
  have h2: "\<not> isLoading ?s" by simp
  have h3: "(None :: js_string option) = None \<or> None = Some [] \<or> None = Some (str ''your_token_here'')"
    by simp
  have h4: "Some (str ''your_token_here'') = None \<or> Some (str ''your_token_here'') = Some []
      \<or> Some (str ''your_token_here'') = Some (str ''your_token_here'')"
    by simp
  show ?thesis
    using tr missing_token_reported_without_call [OF h1 h2 h3, of ?s]
      missing_token_reported_without_call [OF h1 h2 h4, of ?s]
    by simp
qed

subsection \<open>Rejection with an \<open>Error\<close> instance\<close>

text \<open>
  Claim C5. When the call made for an accepted submission rejects with an \<open>Error\<close>
  instance whose message is \<open>m\<close>, settlement appends exactly one assistant entry with
  content \<open>"Error: "\<close> followed by \<open>m\<close>, \<open>isLoading\<close> becomes false, and the
  handler of a render that shows the settled state with non-blank input passes the
  guard. The same holds for settlement on any current state.
\<close>

theorem rejection_message_is_shown:
  assumes "trim (input r) \<noteq> []" and "\<not> isLoading r" and "\<not> token_missing apiToken"
  shows "(\<exists>s1 rq. handleSubmit apiToken r s = Suspended s1 rq
            \<and> handleSubmit_resume (Rejected (ErrorInstance m)) s1 =
                s\<lparr>messages := messages s @
                     [\<lparr>role = User, content = trim (input r)\<rparr>,
                      \<lparr>role = Assistant, content = str ''Error: '' @ m\<rparr>],
                   input := [], isLoading := False\<rparr>
            \<and> (\<forall>p u. trim p \<noteq> [] \<longrightarrow>
                  accepted (handleSubmit apiToken
                    ((handleSubmit_resume (Rejected (ErrorInstance m)) s1)\<lparr>input := p\<rparr>) u)))
         \<and> handleSubmit_resume (Rejected (ErrorInstance m)) s' =
             s'\<lparr>messages := messages s' @ [\<lparr>role = Assistant, content = str ''Error: '' @ m\<rparr>],
                isLoading := False\<rparr>"
proof -
  let ?s1 = "s\<lparr>messages := messages s @ [\<lparr>role = User, content = trim (input r)\<rparr>],
                input := [], isLoading := True\<rparr>"
  have susp: "handleSubmit apiToken r s = Suspended ?s1 (chat_request (trim (input r)))"
    using assms by (rule handleSubmit_suspends)
  have res: "handleSubmit_resume (Rejected (ErrorInstance m)) t =
      t\<lparr>messages := messages t @ [\<lparr>role = Assistant, content = str ''Error: '' @ m\<rparr>],
        isLoading := False\<rparr>" for t
    by (simp add: resume_rejected error_text_def)
  have again: "accepted (handleSubmit apiToken
      ((handleSubmit_resume (Rejected (ErrorInstance m)) ?s1)\<lparr>input := p\<rparr>) u)"
    if "trim p \<noteq> []" for p u
    using that by (simp add: res handleSubmit_def Let_def)
  have "handleSubmit_resume (Rejected (ErrorInstance m)) ?s1 =
      s\<lparr>messages := messages s @
           [\<lparr>role = User, content = trim (input r)\<rparr>,
            \<lparr>role = Assistant, content = str ''Error: '' @ m\<rparr>],
         input := [], isLoading := False\<rparr>"
    by (simp add: res)
  with susp again res show ?thesis by blast
qed

theorem rejection_message_is_shown_witness:
  "\<exists>s1 rq. handleSubmit (Some (str ''hf_abc''))
        \<lparr>messages = [], input = str ''Hello'', isLoading = False\<rparr>
        \<lparr>messages = [], input = str ''Hello'', isLoading = False\<rparr> = Suspended s1 rq
     \<and> handleSubmit_resume (Rejected (ErrorInstance (str ''Service unavailable''))) s1 =
         \<lparr>messages = [\<lparr>role = User, content = str ''Hello''\<rparr>,
             \<lparr>role = Assistant, content = str ''Error: Service unavailable''\<rparr>],
           input = [], isLoading = False\<rparr>"
proof -
  let ?s = "\<lparr>messages = [], input = str ''Hello'', isLoading = False\<rparr>"
  have tr: "trim (str ''Hello'') = str ''Hello''"
    by (simp add: trim_def str_def is_white_space_def)
  have h1: "trim (input ?s) \<noteq> []"
    by (simp add: tr) (simp add: str_def)
  have h2: "\<not> isLoading ?s" by simp
  have h3: "\<not> token_missing (Some (str ''hf_abc''))"
    by (simp add: token_missing_def str_def)
  have cat: "str ''Error: '' @ str ''Service unavailable'' = str ''Error: Service unavailable''"
    by (simp add: str_def)
  have "\<exists>s1 rq. handleSubmit (Some (str ''hf_abc'')) ?s ?s = Suspended s1 rq
     \<and> handleSubmit_resume (Rejected (ErrorInstance (str ''Service unavailable''))) s1 =
         ?s\<lparr>messages := messages ?s @
              [\<lparr>role = User, content = trim (input ?s)\<rparr>,
               \<lparr>role = Assistant, content = str ''Error: '' @ str ''Service unavailable''\<rparr>],
            input := [], isLoading := False\<rparr>"
    using rejection_message_is_shown [OF h1 h2 h3, of ?s "str ''Service unavailable''" ?s]
    by blast
  then show ?thesis
    by (simp add: tr cat)
qed

subsection \<open>A result without a string \<open>generated_text\<close>\<close>

text \<open>
  Claim C6. When the call made for an accepted submission resolves with a result whose
  \<open>generated_text\<close> property is not a string (absent, or of any other type), the
  assistant entry appended at settlement has content \<open>"No response generated"\<close>, which
  does not begin with \<open>"Error: "\<close>. The same holds for settlement on any current state.
\<close>

theorem unusable_generated_text_gives_placeholder:
  assumes "trim (input r) \<noteq> []" and "\<not> isLoading r" and "\<not> token_missing apiToken"
    and "\<forall>g. get_property result (str ''generated_text'') \<noteq> JString g"
  shows "(\<exists>s1 rq. handleSubmit apiToken r s = Suspended s1 rq
            \<and> handleSubmit_resume (Resolved result) s1 =
                s\<lparr>messages := messages s @
                     [\<lparr>role = User, content = trim (input r)\<rparr>,
                      \<lparr>role = Assistant, content = str ''No response generated''\<rparr>],
                   input := [], isLoading := False\<rparr>)
         \<and> handleSubmit_resume (Resolved result) s' =
             s'\<lparr>messages := messages s' @
                  [\<lparr>role = Assistant, content = str ''No response generated''\<rparr>],
                isLoading := False\<rparr>
         \<and> \<not> prefix (str ''Error: '') (content (last (messages (handleSubmit_resume (Resolved result) s'))))"
proof -
  let ?s1 = "s\<lparr>messages := messages s @ [\<lparr>role = User, content = trim (input r)\<rparr>],
                input := [], isLoading := True\<rparr>"
  have susp: "handleSubmit apiToken r s = Suspended ?s1 (chat_request (trim (input r)))"
    using assms(1-3) by (rule handleSubmit_suspends)
  have res: "handleSubmit_resume (Resolved result) t =
      t\<lparr>messages := messages t @ [\<lparr>role = Assistant, content = str ''No response generated''\<rparr>],
        isLoading := False\<rparr>" for t
    using assms(4) by (rule resume_resolved_other)
  have one: "handleSubmit_resume (Resolved result) ?s1 =
      s\<lparr>messages := messages s @
           [\<lparr>role = User, content = trim (input r)\<rparr>,
            \<lparr>role = Assistant, content = str ''No response generated''\<rparr>],
         input := [], isLoading := False\<rparr>"
    by (simp add: res)
  have np: "\<not> prefix (str ''Error: '') (str ''No response generated'')"
    by (simp add: str_def)
  have "\<not> prefix (str ''Error: '') (content (last (messages (handleSubmit_resume (Resolved result) s'))))"
    using np by (simp add: res)
  with susp one res show ?thesis by blast
qed

theorem unusable_generated_text_gives_placeholder_witness:
  "(\<exists>s1 rq. handleSubmit (Some (str ''hf_abc''))
        \<lparr>messages = [], input = str ''Hello'', isLoading = False\<rparr>
        \<lparr>messages = [], input = str ''Hello'', isLoading = False\<rparr> = Suspended s1 rq
     \<and> handleSubmit_resume (Resolved []) s1 =
         \<lparr>messages = [\<lparr>role = User, content = str ''Hello''\<rparr>,
             \<lparr>role = Assistant, content = str ''No response generated''\<rparr>],
           input = [], isLoading = False\<rparr>)
   \<and> handleSubmit_resume (Resolved [(str ''generated_text'', JNumber 5)])
        \<lparr>messages = [\<lparr>role = User, content = str ''Hello''\<rparr>], input = [], isLoading = True\<rparr> =
         \<lparr>messages = [\<lparr>role = User, content = str ''Hello''\<rparr>,
             \<lparr>role = Assistant, content = str ''No response generated''\<rparr>],
           input = [], isLoading = False\<rparr>"
proof -
  let ?s = "\<lparr>messages = [], input = str ''Hello'', isLoading = False\<rparr>"
  let ?t = "\<lparr>messages = [\<lparr>role = User, content = str ''Hello''\<rparr>], input = [], isLoading = True\<rparr>"
  have tr: "trim (str ''Hello'') = str ''Hello''"
    by (simp add: trim_def str_def is_white_space_def)
  have h1: "trim (input ?s) \<noteq> []"
    by (simp add: tr) (simp add: str_def)
  have h2: "\<not> isLoading ?s" by simp
  have h3: "\<not> token_missing (Some (str ''hf_abc''))"
    by (simp add: token_missing_def str_def)
  have h4: "\<forall>g. get_property [] (str ''generated_text'') \<noteq> JString g"
    by (simp add: get_property_def)
  have h5: "\<forall>g. get_property [(str ''generated_text'', JNumber 5)] (str ''generated_text'') \<noteq> JString g"
    by (simp add: get_property_def)
  have a: "\<exists>s1 rq. handleSubmit (Some (str ''hf_abc'')) ?s ?s = Suspended s1 rq
     \<and> handleSubmit_resume (Resolved []) s1 =
         ?s\<lparr>messages := messages ?s @
              [\<lparr>role = User, content = trim (input ?s)\<rparr>,
               \<lparr>role = Assistant, content = str ''No response generated''\<rparr>],
            input := [], isLoading := False\<rparr>"
    using unusable_generated_text_gives_placeholder [OF h1 h2 h3 h4, of ?s ?s]
    by blast
  have b: "handleSubmit_resume (Resolved [(str ''generated_text'', JNumber 5)]) ?t =
      ?t\<lparr>messages := messages ?t @
            [\<lparr>role = Assistant, content = str ''No response generated''\<rparr>],
         isLoading := False\<rparr>"
    using unusable_generated_text_gives_placeholder [OF h1 h2 h3 h5, of ?s ?t]
    by blast
  from a b show ?thesis
    by (simp add: tr)
qed

subsection \<open>A result with a string \<open>generated_text\<close>\<close>

text \<open>
  Claim C7. When the call made for an accepted submission resolves with a result whose
  \<open>generated_text\<close> property is the string \<open>g\<close>, the assistant entry appended at
  settlement has content exactly \<open>g\<close>. The same holds for settlement on any current
  state.
\<close>

theorem generated_text_is_shown:
  assumes "trim (input r) \<noteq> []" and "\<not> isLoading r" and "\<not> token_missing apiToken"
    and "get_property result (str ''generated_text'') = JString g"
  shows "(\<exists>s1 rq. handleSubmit apiToken r s = Suspended s1 rq
            \<and> handleSubmit_resume (Resolved result) s1 =
                s\<lparr>messages := messages s @
                     [\<lparr>role = User, content = trim (input r)\<rparr>,
                      \<lparr>role = Assistant, content = g\<rparr>],
                   input := [], isLoading := False\<rparr>)
         \<and> handleSubmit_resume (Resolved result) s' =
             s'\<lparr>messages := messages s' @ [\<lparr>role = Assistant, content = g\<rparr>],
                isLoading := False\<rparr>"
proof -
  let ?s1 = "s\<lparr>messages := messages s @ [\<lparr>role = User, content = trim (input r)\<rparr>],
                input := [], isLoading := True\<rparr>"
  have susp: "handleSubmit apiToken r s = Suspended ?s1 (chat_request (trim (input r)))"
    using assms(1-3) by (rule handleSubmit_suspends)
  have res: "handleSubmit_resume (Resolved result) t =
      t\<lparr>messages := messages t @ [\<lparr>role = Assistant, content = g\<rparr>], isLoading := False\<rparr>" for t
    using assms(4) by (rule resume_resolved_string)
  have "handleSubmit_resume (Resolved result) ?s1 =
      s\<lparr>messages := messages s @
           [\<lparr>role = User, content = trim (input r)\<rparr>, \<lparr>role = Assistant, content = g\<rparr>],
         input := [], isLoading := False\<rparr>"
    by (simp add: res)
  with susp res show ?thesis by blast
qed

theorem generated_text_is_shown_witness:
  "\<exists>s1 rq. handleSubmit (Some (str ''hf_abc''))
        \<lparr>messages = [], input = str ''Tell me a story'', isLoading = False\<rparr>
        \<lparr>messages = [], input = str ''Tell me a story'', isLoading = False\<rparr> = Suspended s1 rq
     \<and> handleSubmit_resume
          (Resolved [(str ''generated_text'', JString (str ''Once upon a time...''))]) s1 =
         \<lparr>messages = [\<lparr>role = User, content = str ''Tell me a story''\<rparr>,
             \<lparr>role = Assistant, content = str ''Once upon a time...''\<rparr>],
           input = [], isLoading = False\<rparr>"
proof -
  let ?s = "\<lparr>messages = [], input = str ''Tell me a story'', isLoading = False\<rparr>"
  have tr: "trim (str ''Tell me a story'') = str ''Tell me a story''"
    by (simp add: trim_def str_def is_white_space_def)
  have h1: "trim (input ?s) \<noteq> []"
    by (simp add: tr) (simp add: str_def)
  have h2: "\<not> isLoading ?s" by simp
  have h3: "\<not> token_missing (Some (str ''hf_abc''))"
    by (simp add: token_missing_def str_def)
  have h4: "get_property [(str ''generated_text'', JString (str ''Once upon a time...''))]
      (str ''generated_text'') = JString (str ''Once upon a time...'')"
    by (simp add: get_property_def)
  have "\<exists>s1 rq. handleSubmit (Some (str ''hf_abc'')) ?s ?s = Suspended s1 rq
     \<and> handleSubmit_resume
          (Resolved [(str ''generated_text'', JString (str ''Once upon a time...''))]) s1 =
         ?s\<lparr>messages := messages ?s @
              [\<lparr>role = User, content = trim (input ?s)\<rparr>,
               \<lparr>role = Assistant, content = str ''Once upon a time...''\<rparr>],
            input := [], isLoading := False\<rparr>"
    using generated_text_is_shown [OF h1 h2 h3 h4, of ?s ?s]
    by blast
  then show ?thesis
    by (simp add: tr)
qed

subsection \<open>The request\<close>

text \<open>
  Claim C8. An accepted submission with a usable credential makes exactly one call of
  \<open>hf.chatCompletion\<close>. Its message list is the single user message holding the
  trimmed input, whatever the transcript holds; its parameters are
  \<open>max_new_tokens\<close> 500, \<open>temperature\<close> 0.7 and \<open>top_p\<close> 0.95. No other call of
  \<open>handleSubmit\<close> makes a request.
\<close>

theorem request_is_single_turn_with_fixed_parameters:
  "requests_made (handleSubmit apiToken r s) =
     (if trim (input r) = [] \<or> isLoading r \<or> token_missing apiToken then []
      else [\<lparr>model = MODEL_ID,
             messages_arg = [\<lparr>role = User, content = trim (input r)\<rparr>],
             parameters_arg =
               \<lparr>max_new_tokens = 500, temperature = 7 / 10, top_p = 95 / 100\<rparr>\<rparr>])"
  by (simp add: handleSubmit_def Let_def chat_request_def)

theorem request_is_single_turn_with_fixed_parameters_witness:
  "requests_made (handleSubmit (Some (str ''hf_abc''))
      \<lparr>messages = [\<lparr>role = User, content = str ''Earlier''\<rparr>,
                   \<lparr>role = Assistant, content = str ''Reply''\<rparr>],
        input = str '' Hello '', isLoading = False\<rparr>
      \<lparr>messages = [\<lparr>role = User, content = str ''Earlier''\<rparr>,
                   \<lparr>role = Assistant, content = str ''Reply''\<rparr>],
        input = str '' Hello '', isLoading = False\<rparr>) =
     [\<lparr>model = str ''Domver345/lightnovel_ai_proto'',
       messages_arg = [\<lparr>role = User, content = str ''Hello''\<rparr>],
       parameters_arg = \<lparr>max_new_tokens = 500, temperature = 7 / 10, top_p = 95 / 100\<rparr>\<rparr>]"
proof -
  let ?s = "\<lparr>messages = [\<lparr>role = User, content = str ''Earlier''\<rparr>,
                        \<lparr>role = Assistant, content = str ''Reply''\<rparr>],
             input = str '' Hello '', isLoading = False\<rparr>"
  have tr: "trim (str '' Hello '') = str ''Hello''"
    by (simp add: trim_def str_def is_white_space_def)
  have ne: "str ''Hello'' \<noteq> []"
    by (simp add: str_def)
  have tok: "\<not> token_missing (Some (str ''hf_abc''))"
    by (simp add: token_missing_def str_def)
  show ?thesis
    using request_is_single_turn_with_fixed_parameters [of "Some (str ''hf_abc'')" ?s ?s]
    by (simp add: tr ne tok MODEL_ID_def)
qed

subsection \<open>The transcript only grows at its end\<close>

text \<open>
  Claim C9. Every run of \<open>handleSubmit\<close> (returned at the guard, completed, or
  suspended) and every settlement leaves the transcript it started from as a prefix of
  the new transcript: earlier entries stay, unchanged and in order, and new entries
  come after them.
\<close>

theorem transcript_is_append_only:
  "prefix (messages s) (messages (state_of (handleSubmit apiToken r s)))
   \<and> prefix (messages s) (messages (handleSubmit_resume oc s))"
proof
  show "prefix (messages s) (messages (state_of (handleSubmit apiToken r s)))"
    by (simp add: handleSubmit_def Let_def append_message_def catch_block_def finally_block_def)
next
  obtain c where "handleSubmit_resume oc s =
      s\<lparr>messages := messages s @ [\<lparr>role = Assistant, content = c\<rparr>], isLoading := False\<rparr>"
    using resume_appends_one by blast
  then show "prefix (messages s) (messages (handleSubmit_resume oc s))"
    by simp
qed

theorem transcript_is_append_only_witness:
  "prefix [\<lparr>role = User, content = str ''Earlier''\<rparr>, \<lparr>role = Assistant, content = str ''Reply''\<rparr>]
     (messages (state_of (handleSubmit None
        \<lparr>messages = [\<lparr>role = User, content = str ''Earlier''\<rparr>,
                     \<lparr>role = Assistant, content = str ''Reply''\<rparr>],
          input = str ''Hello'', isLoading = False\<rparr>
        \<lparr>messages = [\<lparr>role = User, content = str ''Earlier''\<rparr>,
                     \<lparr>role = Assistant, content = str ''Reply''\<rparr>],
          input = str ''Hello'', isLoading = False\<rparr>)))
   \<and> prefix [\<lparr>role = User, content = str ''Earlier''\<rparr>, \<lparr>role = Assistant, content = str ''Reply''\<rparr>]
     (messages (handleSubmit_resume (Rejected (NotAnError JNull))
        \<lparr>messages = [\<lparr>role = User, content = str ''Earlier''\<rparr>,
                     \<lparr>role = Assistant, content = str ''Reply''\<rparr>],
          input = str ''Hello'', isLoading = False\<rparr>))"
proof -
  let ?s = "\<lparr>messages = [\<lparr>role = User, content = str ''Earlier''\<rparr>,
                     \<lparr>role = Assistant, content = str ''Reply''\<rparr>],
          input = str ''Hello'', isLoading = False\<rparr>"
  show ?thesis
    using transcript_is_append_only [of ?s None ?s "Rejected (NotAnError JNull)"]
    by simp
qed

subsection \<open>Rejection with a value that is not an \<open>Error\<close>\<close>

text \<open>
  Claim C10. When the call made for an accepted submission rejects with a value that
  is not an \<open>Error\<close> instance, the assistant entry appended at settlement has content
  \<open>"Error: Failed to get response"\<close>. The same holds for settlement on any current
  state.
\<close>

theorem non_error_rejection_gives_fallback:
  assumes "trim (input r) \<noteq> []" and "\<not> isLoading r" and "\<not> token_missing apiToken"
  shows "(\<exists>s1 rq. handleSubmit apiToken r s = Suspended s1 rq
            \<and> handleSubmit_resume (Rejected (NotAnError v)) s1 =
                s\<lparr>messages := messages s @
                     [\<lparr>role = User, content = trim (input r)\<rparr>,
                      \<lparr>role = Assistant, content = str ''Error: Failed to get response''\<rparr>],
                   input := [], isLoading := False\<rparr>)
         \<and> handleSubmit_resume (Rejected (NotAnError v)) s' =
             s'\<lparr>messages := messages s' @
                  [\<lparr>role = Assistant, content = str ''Error: Failed to get response''\<rparr>],
                isLoading := False\<rparr>"
proof -
  let ?s1 = "s\<lparr>messages := messages s @ [\<lparr>role = User, content = trim (input r)\<rparr>],
                input := [], isLoading := True\<rparr>"
  have susp: "handleSubmit apiToken r s = Suspended ?s1 (chat_request (trim (input r)))"
    using assms by (rule handleSubmit_suspends)
  have res: "handleSubmit_resume (Rejected (NotAnError v)) t =
      t\<lparr>messages := messages t @
           [\<lparr>role = Assistant, content = str ''Error: Failed to get response''\<rparr>],
        isLoading := False\<rparr>" for t
    by (simp add: resume_rejected error_text_def str_append)
  have "handleSubmit_resume (Rejected (NotAnError v)) ?s1 =
      s\<lparr>messages := messages s @
           [\<lparr>role = User, content = trim (input r)\<rparr>,
            \<lparr>role = Assistant, content = str ''Error: Failed to get response''\<rparr>],
         input := [], isLoading := False\<rparr>"
    by (simp add: res)
  with susp res show ?thesis by blast
qed

theorem non_error_rejection_gives_fallback_witness:
  "\<exists>s1 rq. handleSubmit (Some (str ''hf_abc''))
        \<lparr>messages = [], input = str ''Hello'', isLoading = False\<rparr>
        \<lparr>messages = [], input = str ''Hello'', isLoading = False\<rparr> = Suspended s1 rq
     \<and> handleSubmit_resume (Rejected (NotAnError (JString (str ''Service unavailable'')))) s1 =
         \<lparr>messages = [\<lparr>role = User, content = str ''Hello''\<rparr>,
             \<lparr>role = Assistant, content = str ''Error: Failed to get response''\<rparr>],
           input = [], isLoading = False\<rparr>"
proof -
  let ?s = "\<lparr>messages = [], input = str ''Hello'', isLoading = False\<rparr>"
  have tr: "trim (str ''Hello'') = str ''Hello''"
    by (simp add: trim_def str_def is_white_space_def)
  have h1: "trim (input ?s) \<noteq> []"
    by (simp add: tr) (simp add: str_def)
  have h2: "\<not> isLoading ?s" by simp
  have h3: "\<not> token_missing (Some (str ''hf_abc''))"
    by (simp add: token_missing_def str_def)
  have "\<exists>s1 rq. handleSubmit (Some (str ''hf_abc'')) ?s ?s = Suspended s1 rq
     \<and> handleSubmit_resume (Rejected (NotAnError (JString (str ''Service unavailable'')))) s1 =
         ?s\<lparr>messages := messages ?s @
              [\<lparr>role = User, content = trim (input ?s)\<rparr>,
               \<lparr>role = Assistant, content = str ''Error: Failed to get response''\<rparr>],
            input := [], isLoading := False\<rparr>"
    using non_error_rejection_gives_fallback
      [OF h1 h2 h3, of ?s "JString (str ''Service unavailable'')" ?s]
    by blast
  then show ?thesis
    by (simp add: tr)
qed

end
